theory Spec2Isabelle
  imports Main
begin

section \<open>The CAPI-to-ArgoCD reconciler (controllers/capi2argo\_reconciler.go)\<close>

text \<open>
  The controller watches Cluster-API kubeconfig Secrets (``CapiSecret'') and keeps one
  ArgoCD cluster Secret (``ArgoSecret'') per kubeconfig in step with it. This theory
  embeds \<open>Capi2Argo.Reconcile\<close> and \<open>ValidateObjectOwner\<close> as HOL functions over an
  explicit world (the object store, the trace of calls sent to it, the log) and proves
  the properties the design document states about one reconciliation pass.
\<close>

subsection \<open>Go values\<close>

text \<open>
  A Go \<open>[]byte\<close> and a Go \<open>string\<close> are both byte sequences. A nil slice and an empty
  slice have the same content, which is all \<open>bytes.Equal\<close> looks at.
\<close>

type_synonym bytes = string

definition bytesEqual :: "bytes \<Rightarrow> bytes \<Rightarrow> bool" where
  "bytesEqual a b = (a = b)"

text \<open>
  A Go map with string keys. \<open>None\<close> is the nil map: reading from it yields the zero
  value like a missing key does, assigning into it panics.
\<close>

type_synonym gomap = "(string \<rightharpoonup> string) option"

definition mapIndex :: "gomap \<Rightarrow> string \<Rightarrow> string" where
  "mapIndex m k = (case m of None \<Rightarrow> [] | Some f \<Rightarrow> (case f k of None \<Rightarrow> [] | Some v \<Rightarrow> v))"

definition mapAssign :: "gomap \<Rightarrow> string \<Rightarrow> string \<Rightarrow> gomap option" where
  "mapAssign m k v = (case m of None \<Rightarrow> None | Some f \<Rightarrow> Some (Some (f(k \<mapsto> v))))"

subsection \<open>Kubernetes objects\<close>

text \<open>\<open>types.NamespacedName{Namespace, Name}\<close>, the key of an object in the store.\<close>

datatype NamespacedName = NsName string string

record ObjectMeta =
  Name :: string
  Namespace :: string
  Labels :: gomap
  Annotations :: gomap
  ResourceVersion :: string

record Secret =
  ObjectMeta :: ObjectMeta
  Type :: string
  Data :: gomap

definition keyOf :: "Secret \<Rightarrow> NamespacedName" where
  "keyOf s = NsName (Namespace (ObjectMeta s)) (Name (ObjectMeta s))"

text \<open>The part of a Cluster-API \<open>Cluster\<close> that the reconciler reads.\<close>

record Topology =
  Class :: string

record ClusterSpec =
  Topology :: "Topology option"

record Cluster =
  Spec :: ClusterSpec

text \<open>
  \<open>ArgoCluster\<close> is declared in another file of the package. \<open>Reconcile\<close> reads its
  fields \<open>NamespacedName\<close>, \<open>ClusterName\<close> and \<open>ClusterServer\<close>; \<open>ClusterConfig\<close> stands
  for the connection configuration it carries to \<open>ConvertToSecret\<close>.
\<close>

record ArgoCluster =
  NamespacedName :: NamespacedName
  ClusterName :: string
  ClusterServer :: string
  ClusterConfig :: bytes

record Result =
  Requeue :: bool
  RequeueAfter :: int

definition emptyResult :: Result where
  "emptyResult = \<lparr>Requeue = False, RequeueAfter = 0\<rparr>"

subsection \<open>Errors\<close>

datatype StatusReason =
  StatusReasonNotFound | StatusReasonAlreadyExists | StatusReasonConflict
  | StatusReasonServiceUnavailable

text \<open>
  \<open>StatusError\<close> is what the API client returns, \<open>New\<close> is \<open>errors.New\<close>, \<open>Errorf\<close> is
  \<open>fmt.Errorf\<close> with \<open>%w\<close> wrapping an error.
\<close>

datatype error = StatusError StatusReason | New string | Errorf string error

text \<open>\<open>errors.IsNotFound\<close> of apimachinery looks through wrapped errors.\<close>

fun IsNotFound :: "error \<Rightarrow> bool" where
  "IsNotFound (StatusError reason) = (reason = StatusReasonNotFound)"
| "IsNotFound (New _) = False"
| "IsNotFound (Errorf _ e) = IsNotFound e"

text \<open>\<open>client.IgnoreNotFound\<close>: nil for a not-found error, the error itself otherwise.\<close>

definition IgnoreNotFound :: "error \<Rightarrow> error option" where
  "IgnoreNotFound err = (if IsNotFound err then None else Some err)"

text \<open>What a call of \<open>Reconcile\<close> does: it returns, or it panics.\<close>

datatype ret = Return Result "error option" | Panic string

subsection \<open>The world: object store, call trace, log\<close>

datatype Call =
  CallGet NamespacedName
  | CallGetCluster ObjectMeta
  | CallCreate Secret
  | CallUpdate Secret

datatype LogLine = LogInfo string | LogError error string

text \<open>
  \<open>secrets\<close> is the content of the store. \<open>clusters\<close> is the answer of the Cluster-API
  helper \<open>util.GetClusterFromMetadata\<close> for an object's metadata. \<open>failure\<close> lets any
  single call fail with an error of the environment's choosing (an unavailable store, a
  conflict). \<open>calls\<close> records every call sent to the store and \<open>logs\<close> every log line, in
  order.
\<close>

record World =
  secrets :: "NamespacedName \<rightharpoonup> Secret"
  clusters :: "ObjectMeta \<Rightarrow> error + Cluster"
  failure :: "Call \<Rightarrow> error option"
  calls :: "Call list"
  logs :: "LogLine list"

definition issue :: "Call \<Rightarrow> World \<Rightarrow> World" where
  "issue c w = w\<lparr>calls := calls w @ [c]\<rparr>"

definition logInfo :: "string \<Rightarrow> World \<Rightarrow> World" where
  "logInfo msg w = w\<lparr>logs := logs w @ [LogInfo msg]\<rparr>"

definition logError :: "error \<Rightarrow> string \<Rightarrow> World \<Rightarrow> World" where
  "logError err msg w = w\<lparr>logs := logs w @ [LogError err msg]\<rparr>"

definition Get :: "NamespacedName \<Rightarrow> World \<Rightarrow> (error + Secret) \<times> World" where
  "Get key w =
     (case failure w (CallGet key) of
        Some err \<Rightarrow> (Inl err, issue (CallGet key) w)
      | None \<Rightarrow>
          (case secrets w key of
             None \<Rightarrow> (Inl (StatusError StatusReasonNotFound), issue (CallGet key) w)
           | Some s \<Rightarrow> (Inr s, issue (CallGet key) w)))"

definition Create :: "Secret \<Rightarrow> World \<Rightarrow> error option \<times> World" where
  "Create obj w =
     (case failure w (CallCreate obj) of
        Some err \<Rightarrow> (Some err, issue (CallCreate obj) w)
      | None \<Rightarrow>
          (case secrets w (keyOf obj) of
             Some _ \<Rightarrow> (Some (StatusError StatusReasonAlreadyExists), issue (CallCreate obj) w)
           | None \<Rightarrow>
               (None, issue (CallCreate obj) (w\<lparr>secrets := (secrets w)(keyOf obj \<mapsto> obj)\<rparr>))))"

definition Update :: "Secret \<Rightarrow> World \<Rightarrow> error option \<times> World" where
  "Update obj w =
     (case failure w (CallUpdate obj) of
        Some err \<Rightarrow> (Some err, issue (CallUpdate obj) w)
      | None \<Rightarrow>
          (case secrets w (keyOf obj) of
             None \<Rightarrow> (Some (StatusError StatusReasonNotFound), issue (CallUpdate obj) w)
           | Some _ \<Rightarrow>
               (None, issue (CallUpdate obj) (w\<lparr>secrets := (secrets w)(keyOf obj \<mapsto> obj)\<rparr>))))"

definition GetClusterFromMetadata :: "ObjectMeta \<Rightarrow> World \<Rightarrow> (error + Cluster) \<times> World" where
  "GetClusterFromMetadata obj w =
     (case failure w (CallGetCluster obj) of
        Some err \<Rightarrow> (Inl err, issue (CallGetCluster obj) w)
      | None \<Rightarrow> (clusters w obj, issue (CallGetCluster obj) w))"

definition isWrite :: "Call \<Rightarrow> bool" where
  "isWrite c = (case c of CallCreate _ \<Rightarrow> True | CallUpdate _ \<Rightarrow> True | _ \<Rightarrow> False)"

subsection \<open>Functions of the package that \<open>Reconcile\<close> calls\<close>

text \<open>
  \<open>ValidateCapiNaming\<close>, \<open>ValidateCapiSecret\<close>, \<open>NewCapiCluster\<close> with
  \<open>CapiCluster.Unmarshal\<close>, \<open>NewArgoCluster\<close> and \<open>ArgoCluster.ConvertToSecret\<close> live in
  other files of the package. \<open>Reconcile\<close> is embedded over any implementation of them,
  \<open>pkg\<close>; \<open>'c\<close> is the type \<open>CapiCluster\<close>. \<open>ConvertToSecret\<close> returns a pointer to a Secret
  together with an error, and \<open>util.GetClusterFromMetadata\<close> a pointer to a Cluster; as
  usual the pointer is not nil when the error is.
\<close>

record 'c Helpers =
  ValidateCapiNaming :: "NamespacedName \<Rightarrow> bool"
  ValidateCapiSecret :: "Secret \<Rightarrow> error option"
  Unmarshal :: "Secret \<Rightarrow> error + 'c"
  NewArgoCluster :: "'c \<Rightarrow> Secret \<Rightarrow> ArgoCluster"
  ConvertToSecret :: "ArgoCluster \<Rightarrow> error + Secret"

subsection \<open>Configuration\<close>

text \<open>
  The package variables \<open>ArgoNamespace\<close> and \<open>EnableNamespacedNames\<close>, set once by
  \<open>init\<close> (lines 20 to 29) from the environment. \<open>os.Getenv\<close> gives the empty string for
  a variable that is not set; the error of \<open>strconv.ParseBool\<close> is dropped, which leaves
  \<open>false\<close>.
\<close>

record Config =
  ArgoNamespace :: string
  EnableNamespacedNames :: bool

definition ParseBool :: "string \<Rightarrow> error + bool" where
  "ParseBool str =
     (if str \<in> set [''1'', ''t'', ''T'', ''TRUE'', ''true'', ''True''] then Inr True
      else if str \<in> set [''0'', ''f'', ''F'', ''FALSE'', ''false'', ''False''] then Inr False
      else Inl (New ''invalid syntax''))"

definition init :: "(string \<Rightarrow> string) \<Rightarrow> Config" where
  "init Getenv =
     \<lparr>ArgoNamespace =
        (if Getenv ''ARGOCD_NAMESPACE'' = [] then ''argocd'' else Getenv ''ARGOCD_NAMESPACE''),
      EnableNamespacedNames =
        (case ParseBool (Getenv ''ENABLE_NAMESPACED_NAMES'') of
           Inr b \<Rightarrow> b
         | Inl _ \<Rightarrow> False)\<rparr>"

subsection \<open>ValidateObjectOwner\<close>

definition ValidateObjectOwner :: "Secret \<Rightarrow> error option" where
  "ValidateObjectOwner s =
     (if mapIndex (Labels (ObjectMeta s)) ''capi-to-argocd/owned'' \<noteq> ''true''
      then Some (New ''not owned by CACO'')
      else None)"

subsection \<open>Reconcile\<close>

text \<open>
  Lines 94 to 96: the class label is set on the Secret that \<open>ConvertToSecret\<close> returned
  when the cluster has a topology. Assigning into a nil \<open>Labels\<close> map panics.
\<close>

definition setClass :: "Cluster \<Rightarrow> Secret \<Rightarrow> Secret option" where
  "setClass cluster argoSecret =
     (case Topology (Spec cluster) of
        None \<Rightarrow> Some argoSecret
      | Some topology \<Rightarrow>
          (case mapAssign (Labels (ObjectMeta argoSecret)) ''class'' (Class topology) of
             None \<Rightarrow> None
           | Some labels \<Rightarrow>
               Some (argoSecret\<lparr>ObjectMeta := (ObjectMeta argoSecret)\<lparr>Labels := labels\<rparr>\<rparr>)))"

text \<open>
  The first part of \<open>Reconcile\<close>, up to and including the lookup of an existing
  ArgoSecret (lines 43 to 113). It either ends the pass (\<open>Inl\<close>) or hands the
  ArgoCluster, the ArgoSecret to write and the existing ArgoSecret, if there is one,
  to the \<open>switch\<close>.
\<close>

definition Reconcile_fetch ::
  "'c Helpers \<Rightarrow> NamespacedName \<Rightarrow> World
     \<Rightarrow> (ret + ArgoCluster \<times> Secret \<times> Secret option) \<times> World" where
  "Reconcile_fetch pkg req w =
     (if \<not> ValidateCapiNaming pkg req then (Inl (Return emptyResult None), w)
      else
        (case Get req w of
           (Inl err, w1) \<Rightarrow> (Inl (Return emptyResult (IgnoreNotFound err)), w1)
         | (Inr capiSecret, w1) \<Rightarrow>
        (let w2 = logInfo ''Fetched CapiSecret'' w1 in
        (case ValidateCapiSecret pkg capiSecret of
           Some err \<Rightarrow>
             (Inl (Return emptyResult (Some err)),
              logInfo ''Ignoring secret as it's missing proper CAPI type'' w2)
         | None \<Rightarrow>
        (case GetClusterFromMetadata (ObjectMeta capiSecret) w2 of
           (Inl err, w3) \<Rightarrow>
             (Inl (Return emptyResult
                (Some (Errorf ''failed to get cluster object from secret: '' err))), w3)
         | (Inr cluster, w3) \<Rightarrow>
        (case Unmarshal pkg capiSecret of
           Inl err \<Rightarrow>
             (Inl (Return emptyResult (Some err)),
              logError err ''Failed to unmarshal CapiCluster'' w3)
         | Inr capiCluster \<Rightarrow>
        (let argoCluster = NewArgoCluster pkg capiCluster capiSecret in
        (case ConvertToSecret pkg argoCluster of
           Inl err \<Rightarrow>
             (Inl (Return emptyResult (Some err)),
              logError err ''Failed to convert ArgoCluster to ArgoSecret'' w3)
         | Inr argoSecret0 \<Rightarrow>
        (case setClass cluster argoSecret0 of
           None \<Rightarrow> (Inl (Panic ''assignment to entry in nil map''), w3)
         | Some argoSecret \<Rightarrow>
        (case Get (NamespacedName argoCluster) w3 of
           (Inl err, w4) \<Rightarrow>
             (if IsNotFound err
              then (Inr (argoCluster, argoSecret, None),
                    logInfo ''ArgoSecret does not exists, creating..'' w4)
              else (Inl (Return emptyResult (Some err)),
                    logError err ''Failed to fetch ArgoSecret to check if exists'' w4))
         | (Inr existingSecret, w4) \<Rightarrow>
             (Inr (argoCluster, argoSecret, Some existingSecret),
              logInfo ''ArgoSecret exists, checking state..'' w4)))))))))))"

text \<open>
  One of the three comparisons of lines 141 to 154: when the stored bytes under \<open>key\<close>
  differ from the wanted ones, the wanted ones are assigned into the \<open>Data\<close> map of the
  fetched Secret and \<open>changed\<close> is set. \<open>None\<close> is the panic of assigning into a nil map.
\<close>

definition syncField :: "string \<Rightarrow> bytes \<Rightarrow> Secret \<times> bool \<Rightarrow> (Secret \<times> bool) option" where
  "syncField key want st =
     (case st of (existingSecret, changed) \<Rightarrow>
        if \<not> bytesEqual (mapIndex (Data existingSecret) key) want
        then (case mapAssign (Data existingSecret) key want of
                None \<Rightarrow> None
              | Some d \<Rightarrow> Some (existingSecret\<lparr>Data := d\<rparr>, True))
        else Some (existingSecret, changed))"

definition syncFields :: "ArgoCluster \<Rightarrow> Secret \<Rightarrow> Secret \<Rightarrow> (Secret \<times> bool) option" where
  "syncFields argoCluster argoSecret existingSecret =
     Option.bind
       (Option.bind
          (syncField ''name'' (ClusterName argoCluster) (existingSecret, False))
          (syncField ''server'' (ClusterServer argoCluster)))
       (syncField ''config'' (mapIndex (Data argoSecret) ''config''))"

text \<open>The \<open>switch exists\<close> of lines 121 to 168.\<close>

definition Reconcile_switch ::
  "ArgoCluster \<Rightarrow> Secret \<Rightarrow> Secret option \<Rightarrow> World \<Rightarrow> ret \<times> World" where
  "Reconcile_switch argoCluster argoSecret existing w =
     (case existing of
        None \<Rightarrow>
          (case Create argoSecret w of
             (Some err, w1) \<Rightarrow>
               (Return emptyResult (Some err), logError err ''Failed to create ArgoSecret'' w1)
           | (None, w1) \<Rightarrow>
               (Return emptyResult None, logInfo ''Created new ArgoSecret'' w1))
      | Some existingSecret \<Rightarrow>
          (let w1 = logInfo ''Checking if ArgoSecret is managed by the Controller'' w in
           (case ValidateObjectOwner existingSecret of
              Some err \<Rightarrow>
                (Return emptyResult None, logInfo ''Not managed by Controller, skipping..'' w1)
            | None \<Rightarrow>
           (let w2 = logInfo ''Checking if ArgoSecret is out-of-sync with'' w1 in
           (case syncFields argoCluster argoSecret existingSecret of
              None \<Rightarrow> (Panic ''assignment to entry in nil map'', w2)
            | Some (existingSecret', changed) \<Rightarrow>
                if changed
                then
                  (let w3 = logInfo ''Updating out-of-sync ArgoSecret'' w2 in
                   (case Update existingSecret' w3 of
                      (Some err, w4) \<Rightarrow>
                        (Return emptyResult (Some err),
                         logError err ''Failed to update ArgoSecret'' w4)
                    | (None, w4) \<Rightarrow>
                        (Return emptyResult None,
                         logInfo ''Updated successfully of ArgoSecret'' w4)))
                else
                  (Return emptyResult None,
                   logInfo ''ArgoSecret is in-sync with CapiCluster, skipping..'' w2))))))"

definition Reconcile :: "'c Helpers \<Rightarrow> NamespacedName \<Rightarrow> World \<Rightarrow> ret \<times> World" where
  "Reconcile pkg req w =
     (case Reconcile_fetch pkg req w of
        (Inl res, w1) \<Rightarrow> (res, w1)
      | (Inr (argoCluster, argoSecret, existing), w1) \<Rightarrow>
          Reconcile_switch argoCluster argoSecret existing w1)"

subsection \<open>What the three comparisons amount to\<close>

text \<open>
  \<open>outOfSync\<close> says that at least one of the three comparisons of lines 141 to 154 finds
  a difference; \<open>synced\<close> is the \<open>Data\<close> map after the three conditional assignments.
  Both are compared with \<open>syncFields\<close>, the embedding of the code, below.
\<close>

definition outOfSync :: "ArgoCluster \<Rightarrow> Secret \<Rightarrow> Secret \<Rightarrow> bool" where
  "outOfSync argoCluster argoSecret existingSecret =
     (mapIndex (Data existingSecret) ''name'' \<noteq> ClusterName argoCluster
      \<or> mapIndex (Data existingSecret) ''server'' \<noteq> ClusterServer argoCluster
      \<or> mapIndex (Data existingSecret) ''config'' \<noteq> mapIndex (Data argoSecret) ''config'')"

definition synced :: "ArgoCluster \<Rightarrow> Secret \<Rightarrow> (string \<rightharpoonup> string) \<Rightarrow> (string \<rightharpoonup> string)" where
  "synced argoCluster argoSecret d =
     (\<lambda>k. if k = ''name'' \<and> mapIndex (Some d) ''name'' \<noteq> ClusterName argoCluster
            then Some (ClusterName argoCluster)
          else if k = ''server'' \<and> mapIndex (Some d) ''server'' \<noteq> ClusterServer argoCluster
            then Some (ClusterServer argoCluster)
          else if k = ''config'' \<and> mapIndex (Some d) ''config'' \<noteq> mapIndex (Data argoSecret) ''config''
            then Some (mapIndex (Data argoSecret) ''config'')
          else d k)"

subsection \<open>The helpers as the design document describes them\<close>

text \<open>\<open>strings.HasSuffix\<close> and \<open>strings.TrimSuffix\<close>.\<close>

definition HasSuffix :: "string \<Rightarrow> string \<Rightarrow> bool" where
  "HasSuffix s suffix =
     (length suffix \<le> length s \<and> drop (length s - length suffix) s = suffix)"

definition TrimSuffix :: "string \<Rightarrow> string \<Rightarrow> string" where
  "TrimSuffix s suffix =
     (if HasSuffix s suffix then take (length s - length suffix) s else s)"

text \<open>
  Modelled from the spec: \<open>ValidateCapiNaming\<close> is not in the reconciler's file. The
  Naming Validator ``returns true only if the name component ends in a fixed suffix
  denoting a credential record and the prefix (cluster name) is non-empty''; the
  convention is \<open><clusterName>-kubeconfig\<close>.
\<close>

definition spec_ValidateCapiNaming :: "NamespacedName \<Rightarrow> bool" where
  "spec_ValidateCapiNaming n =
     (case n of NsName namespace name \<Rightarrow>
        HasSuffix name ''-kubeconfig'' \<and> TrimSuffix name ''-kubeconfig'' \<noteq> [])"

text \<open>
  Modelled from the spec: \<open>ValidateCapiSecret\<close> is not in the reconciler's file. The
  Type/Shape Validator ``fails with InvalidRecordKind when typeTag does not equal the
  expected constant, or with MissingDataField when the required connection-configuration
  field is absent''. The expected type is \<open>cluster.x-k8s.io/secret\<close> (comment at line 61),
  the field is \<open>value\<close>.
\<close>

definition spec_ValidateCapiSecret :: "Secret \<Rightarrow> error option" where
  "spec_ValidateCapiSecret s =
     (if Type s \<noteq> ''cluster.x-k8s.io/secret'' then Some (New ''InvalidRecordKind'')
      else
        (case Data s of
           None \<Rightarrow> Some (New ''MissingDataField'')
         | Some d \<Rightarrow>
             (case d ''value'' of
                None \<Rightarrow> Some (New ''MissingDataField'')
              | Some _ \<Rightarrow> None)))"

text \<open>
  What the design document leaves open about the Transformer: how a connection
  configuration is parsed (the one fallible step), how the server endpoint is read from
  it, how it is serialised for the registry, and the rule that names the target record.
\<close>

record 'c Codec =
  parseConfig :: "bytes \<Rightarrow> error + 'c"
  serverOf :: "'c \<Rightarrow> string"
  serializeConfig :: "'c \<Rightarrow> bytes"
  targetOf :: "NamespacedName \<Rightarrow> NamespacedName"

text \<open>
  Modelled from the spec: the rule that names the target record belongs to
  \<open>NewArgoCluster\<close>, which is not in the reconciler's file. The identifier is ``derived
  deterministically from \<open>CredentialRecord.identifier\<close>, namespaced into a fixed target
  registry namespace'', and a flag controls ``whether namespaces are folded into target
  identifiers''. How the name is spelled is left to \<open>format\<close>, which is given the
  credential record's namespace only when the flag is set.
\<close>

definition spec_targetOf ::
  "Config \<Rightarrow> (string option \<Rightarrow> string \<Rightarrow> string) \<Rightarrow> NamespacedName \<Rightarrow> NamespacedName" where
  "spec_targetOf cfg format n =
     (case n of NsName namespace name \<Rightarrow>
        NsName (ArgoNamespace cfg)
          (format (if EnableNamespacedNames cfg then Some namespace else None) name))"

text \<open>
  Modelled from the spec: \<open>CapiCluster.Unmarshal\<close> is not in the reconciler's file. ``All
  fallibility lives in parsing the connection configuration'', which is the field
  \<open>value\<close> of the credential record.
\<close>

definition spec_Unmarshal :: "'c Codec \<Rightarrow> Secret \<Rightarrow> error + 'c" where
  "spec_Unmarshal codec s = parseConfig codec (mapIndex (Data s) ''value'')"

text \<open>
  Modelled from the spec: \<open>NewArgoCluster\<close> is not in the reconciler's file. The
  identifier is derived from the credential record's identifier, the name is the
  ``cluster name extracted from the credential identifier (prefix before the suffix)'',
  the server is the ``server endpoint extracted from the parsed connection
  configuration'', the configuration ``a serialized representation of the full
  connection configuration''.
\<close>

definition spec_NewArgoCluster :: "'c Codec \<Rightarrow> 'c \<Rightarrow> Secret \<Rightarrow> ArgoCluster" where
  "spec_NewArgoCluster codec capiCluster s =
     \<lparr>NamespacedName = targetOf codec (keyOf s),
      ClusterName = TrimSuffix (Name (ObjectMeta s)) ''-kubeconfig'',
      ClusterServer = serverOf codec capiCluster,
      ClusterConfig = serializeConfig codec capiCluster\<rparr>"

text \<open>
  Modelled from the spec: \<open>ArgoCluster.ConvertToSecret\<close> is not in the reconciler's file.
  The target record has the data fields \<open>name\<close>, \<open>server\<close> and \<open>config\<close> and the managed-by
  label, which is the label that \<open>ValidateObjectOwner\<close> reads; the function ``must be
  total over well-formed inputs''.
\<close>

definition spec_ConvertToSecret :: "ArgoCluster \<Rightarrow> error + Secret" where
  "spec_ConvertToSecret c =
     (case NamespacedName c of NsName namespace name \<Rightarrow>
        Inr \<lparr>ObjectMeta =
               \<lparr>Name = name, Namespace = namespace,
                Labels = Some [''capi-to-argocd/owned'' \<mapsto> ''true''],
                Annotations = None, ResourceVersion = []\<rparr>,
             Type = [],
             Data = Some [''name'' \<mapsto> ClusterName c,
                          ''server'' \<mapsto> ClusterServer c,
                          ''config'' \<mapsto> ClusterConfig c]\<rparr>)"

definition spec_Helpers :: "'c Codec \<Rightarrow> 'c Helpers" where
  "spec_Helpers codec =
     \<lparr>ValidateCapiNaming = spec_ValidateCapiNaming,
      ValidateCapiSecret = spec_ValidateCapiSecret,
      Unmarshal = spec_Unmarshal codec,
      NewArgoCluster = spec_NewArgoCluster codec,
      ConvertToSecret = spec_ConvertToSecret\<rparr>"

subsection \<open>A small cluster for the examples\<close>

text \<open>
  The examples use a stub reader of connection configurations: the configuration is the
  server endpoint itself, and an empty one is malformed. Nothing is set in the
  environment, and names are spelled \<open>cluster-x\<close>, or \<open>cluster-ns-x\<close> with the namespace
  folded in, so that the target of \<open>ns/x-kubeconfig\<close> is \<open>argocd/cluster-x\<close>.
\<close>

definition demoFormat :: "string option \<Rightarrow> string \<Rightarrow> string" where
  "demoFormat folded name =
     ''cluster-'' @ (case folded of None \<Rightarrow> [] | Some namespace \<Rightarrow> namespace @ ''-'')
       @ TrimSuffix name ''-kubeconfig''"

definition demoCodec :: "string Codec" where
  "demoCodec =
     \<lparr>parseConfig = (\<lambda>b. if b = [] then Inl (New ''MalformedConfig'') else Inr b),
      serverOf = (\<lambda>c. c),
      serializeConfig = (\<lambda>c. c),
      targetOf = spec_targetOf (init (\<lambda>_. [])) demoFormat\<rparr>"

definition demoHelpers :: "string Helpers" where
  "demoHelpers = spec_Helpers demoCodec"

definition demoKey :: NamespacedName where
  "demoKey = NsName ''default'' ''demo-kubeconfig''"

definition demoTarget :: NamespacedName where
  "demoTarget = NsName ''argocd'' ''cluster-demo''"

definition demoCapiSecret :: "string \<Rightarrow> Secret" where
  "demoCapiSecret typeTag =
     \<lparr>ObjectMeta =
        \<lparr>Name = ''demo-kubeconfig'', Namespace = ''default'', Labels = None,
         Annotations = None, ResourceVersion = ''1''\<rparr>,
      Type = typeTag,
      Data = Some [''value'' \<mapsto> ''https://1.2.3.4:6443'']\<rparr>"

definition demoArgoSecret :: "gomap \<Rightarrow> gomap \<Rightarrow> Secret" where
  "demoArgoSecret labels d =
     \<lparr>ObjectMeta =
        \<lparr>Name = ''cluster-demo'', Namespace = ''argocd'', Labels = labels,
         Annotations = Some [''note'' \<mapsto> ''kept''], ResourceVersion = ''7''\<rparr>,
      Type = ''Opaque'',
      Data = d\<rparr>"

definition demoCluster :: Cluster where
  "demoCluster = \<lparr>Spec = \<lparr>Topology = None\<rparr>\<rparr>"

definition demoWorld :: "(NamespacedName \<rightharpoonup> Secret) \<Rightarrow> World" where
  "demoWorld store =
     \<lparr>secrets = store, clusters = (\<lambda>_. Inr demoCluster), failure = (\<lambda>_. None),
      calls = [], logs = []\<rparr>"

text \<open>What the Transformer makes of \<open>default/demo-kubeconfig\<close>.\<close>

definition demoArgoCluster :: ArgoCluster where
  "demoArgoCluster =
     \<lparr>NamespacedName = demoTarget, ClusterName = ''demo'',
      ClusterServer = ''https://1.2.3.4:6443'', ClusterConfig = ''https://1.2.3.4:6443''\<rparr>"

definition demoDesired :: Secret where
  "demoDesired =
     \<lparr>ObjectMeta =
        \<lparr>Name = ''cluster-demo'', Namespace = ''argocd'',
         Labels = Some [''capi-to-argocd/owned'' \<mapsto> ''true''],
         Annotations = None, ResourceVersion = []\<rparr>,
      Type = [],
      Data = Some [''name'' \<mapsto> ''demo'',
                   ''server'' \<mapsto> ''https://1.2.3.4:6443'',
                   ''config'' \<mapsto> ''https://1.2.3.4:6443'']\<rparr>"

text \<open>The world after the first part of a pass for \<open>default/demo-kubeconfig\<close>.\<close>

definition fetched :: "(NamespacedName \<rightharpoonup> Secret) \<Rightarrow> World" where
  "fetched store =
     \<lparr>secrets = store, clusters = (\<lambda>_. Inr demoCluster), failure = (\<lambda>_. None),
      calls = [CallGet demoKey,
               CallGetCluster (ObjectMeta (demoCapiSecret ''cluster.x-k8s.io/secret'')),
               CallGet demoTarget],
      logs = [LogInfo ''Fetched CapiSecret'',
              LogInfo (if store demoTarget = None
                       then ''ArgoSecret does not exists, creating..''
                       else ''ArgoSecret exists, checking state..'')]\<rparr>"

text \<open>
  A target record that somebody else put there: its label says \<open>True\<close>, not \<open>true\<close>, and
  its server is another one.
\<close>

definition foreignSecret :: Secret where
  "foreignSecret =
     demoArgoSecret (Some [''capi-to-argocd/owned'' \<mapsto> ''True''])
       (Some [''server'' \<mapsto> ''https://9.9.9.9:6443''])"

definition foreignStore :: "NamespacedName \<rightharpoonup> Secret" where
  "foreignStore =
     [demoKey \<mapsto> demoCapiSecret ''cluster.x-k8s.io/secret'', demoTarget \<mapsto> foreignSecret]"

text \<open>The credential record with another type tag, and no target record.\<close>

definition opaqueWorld :: World where
  "opaqueWorld = demoWorld [demoKey \<mapsto> demoCapiSecret ''Opaque'']"


text \<open>
  An owned target record whose server is out of date (it also carries a label and a data
  key of its own), and an owned target record without any data.
\<close>

definition staleData :: "string \<rightharpoonup> string" where
  "staleData = [''name'' \<mapsto> ''demo'', ''server'' \<mapsto> ''https://9.9.9.9:6443'',
                ''config'' \<mapsto> ''https://1.2.3.4:6443'', ''project'' \<mapsto> ''default'']"

definition staleSecret :: Secret where
  "staleSecret =
     demoArgoSecret (Some [''capi-to-argocd/owned'' \<mapsto> ''true'', ''team'' \<mapsto> ''blue''])
       (Some staleData)"

definition staleStore :: "NamespacedName \<rightharpoonup> Secret" where
  "staleStore =
     [demoKey \<mapsto> demoCapiSecret ''cluster.x-k8s.io/secret'', demoTarget \<mapsto> staleSecret]"

definition bareSecret :: Secret where
  "bareSecret = demoArgoSecret (Some [''capi-to-argocd/owned'' \<mapsto> ''true'']) None"

definition bareStore :: "NamespacedName \<rightharpoonup> Secret" where
  "bareStore =
     [demoKey \<mapsto> demoCapiSecret ''cluster.x-k8s.io/secret'', demoTarget \<mapsto> bareSecret]"

text \<open>Only the credential record is there: the target record is absent.\<close>

definition freshStore :: "NamespacedName \<rightharpoonup> Secret" where
  "freshStore = [demoKey \<mapsto> demoCapiSecret ''cluster.x-k8s.io/secret'']"

text \<open>The same credential record in a namespace of one's choice.\<close>

definition teamCapiSecret :: "string \<Rightarrow> Secret" where
  "teamCapiSecret namespace =
     (demoCapiSecret ''cluster.x-k8s.io/secret'')
       \<lparr>ObjectMeta :=
          (ObjectMeta (demoCapiSecret ''cluster.x-k8s.io/secret''))\<lparr>Namespace := namespace\<rparr>\<rparr>"

text \<open>
  A cluster with a topology of class \<open>prod\<close>, the example world with that cluster as the
  resolver's answer, and the target record with the class label set.
\<close>

definition prodCluster :: Cluster where
  "prodCluster = \<lparr>Spec = \<lparr>Topology = Some \<lparr>Class = ''prod''\<rparr>\<rparr>\<rparr>"

definition prodWorld :: "(NamespacedName \<rightharpoonup> Secret) \<Rightarrow> World" where
  "prodWorld store = (demoWorld store)\<lparr>clusters := (\<lambda>_. Inr prodCluster)\<rparr>"


section \<open>Properties\<close>

subsection \<open>The world under the store operations\<close>

lemma issue_simps [simp]:
  "secrets (issue c w) = secrets w" "clusters (issue c w) = clusters w"
  "failure (issue c w) = failure w" "calls (issue c w) = calls w @ [c]"
  "logs (issue c w) = logs w"
  by (simp_all add: issue_def)

lemma logInfo_simps [simp]:
  "secrets (logInfo m w) = secrets w" "clusters (logInfo m w) = clusters w"
  "failure (logInfo m w) = failure w" "calls (logInfo m w) = calls w"
  "logs (logInfo m w) = logs w @ [LogInfo m]"
  by (simp_all add: logInfo_def)

lemma logError_simps [simp]:
  "secrets (logError e m w) = secrets w" "clusters (logError e m w) = clusters w"
  "failure (logError e m w) = failure w" "calls (logError e m w) = calls w"
  "logs (logError e m w) = logs w @ [LogError e m]"
  by (simp_all add: logError_def)

lemma isWrite_simps [simp]:
  "\<not> isWrite (CallGet key)" "\<not> isWrite (CallGetCluster obj)"
  "isWrite (CallCreate s)" "isWrite (CallUpdate s)"
  by (simp_all add: isWrite_def)

lemma Get_world: "snd (Get key w) = issue (CallGet key) w"
  by (simp add: Get_def split: option.splits)

lemma Get_Inr:
  "fst (Get key w) = Inr s \<longleftrightarrow> failure w (CallGet key) = None \<and> secrets w key = Some s"
  by (auto simp add: Get_def split: option.splits)


text \<open>
  What is known when the first part of \<open>Reconcile\<close> reaches the \<open>switch\<close>: every check
  passed, three reads were sent and nothing else, and \<open>existing\<close> is what the store holds
  under the target's name.
\<close>

lemma fetch_cases:
  assumes "Reconcile_fetch pkg req w = (Inr (argoCluster, argoSecret, existing), w1)"
  obtains capiSecret cluster capiCluster argoSecret0 where
    "ValidateCapiNaming pkg req"
    "fst (Get req w) = Inr capiSecret"
    "ValidateCapiSecret pkg capiSecret = None"
    "fst (GetClusterFromMetadata (ObjectMeta capiSecret)
            (logInfo ''Fetched CapiSecret'' (issue (CallGet req) w))) = Inr cluster"
    "Unmarshal pkg capiSecret = Inr capiCluster"
    "argoCluster = NewArgoCluster pkg capiCluster capiSecret"
    "ConvertToSecret pkg argoCluster = Inr argoSecret0"
    "setClass cluster argoSecret0 = Some argoSecret"
    "calls w1 = calls w @ [CallGet req, CallGetCluster (ObjectMeta capiSecret),
                           CallGet (NamespacedName argoCluster)]"
    "secrets w1 = secrets w" "failure w1 = failure w" "clusters w1 = clusters w"
    "case existing of
       None \<Rightarrow> secrets w (NamespacedName argoCluster) = None
                \<or> (\<exists>e. failure w (CallGet (NamespacedName argoCluster)) = Some e \<and> IsNotFound e)
     | Some s \<Rightarrow> secrets w (NamespacedName argoCluster) = Some s
                \<and> failure w (CallGet (NamespacedName argoCluster)) = None"
  using assms
  by (auto simp add: Reconcile_fetch_def Let_def Get_def GetClusterFromMetadata_def
      split: if_splits prod.splits sum.splits option.splits)

lemma fetch_reads_only:
  "\<exists>cs. calls (snd (Reconcile_fetch pkg req w)) = calls w @ cs \<and> filter isWrite cs = []"
  by (auto simp add: Reconcile_fetch_def Let_def Get_def GetClusterFromMetadata_def isWrite_def
      split: if_splits prod.splits sum.splits option.splits)

subsection \<open>The example pass\<close>

lemma demo_names:
  "HasSuffix ''demo-kubeconfig'' ''-kubeconfig''"
  "TrimSuffix ''demo-kubeconfig'' ''-kubeconfig'' = ''demo''"
  by (simp_all add: HasSuffix_def TrimSuffix_def)

lemma demo_keys: "demoKey \<noteq> demoTarget" "demoTarget \<noteq> demoKey"
  by (simp_all add: demoKey_def demoTarget_def)

lemma demo_name_ok: "ValidateCapiNaming demoHelpers demoKey"
  by (simp add: demoHelpers_def spec_Helpers_def spec_ValidateCapiNaming_def demoKey_def
      demo_names)

lemma demoWorld_simps [simp]:
  "secrets (demoWorld store) = store" "calls (demoWorld store) = []"
  "logs (demoWorld store) = []" "failure (demoWorld store) c = None"
  "clusters (demoWorld store) obj = Inr demoCluster"
  by (simp_all add: demoWorld_def)

lemma fetched_simps [simp]:
  "secrets (fetched store) = store" "failure (fetched store) c = None"
  "calls (fetched store) =
     [CallGet demoKey,
      CallGetCluster (ObjectMeta (demoCapiSecret ''cluster.x-k8s.io/secret'')),
      CallGet demoTarget]"
  by (simp_all add: fetched_def)

lemma demoArgoCluster_simps [simp]:
  "NamespacedName demoArgoCluster = demoTarget" "ClusterName demoArgoCluster = ''demo''"
  "ClusterServer demoArgoCluster = ''https://1.2.3.4:6443''"
  by (simp_all add: demoArgoCluster_def)

lemma init_default:
  "ArgoNamespace (init (\<lambda>_. [])) = ''argocd''" "\<not> EnableNamespacedNames (init (\<lambda>_. []))"
  by (simp_all add: init_def ParseBool_def)

lemma demo_targetOf: "targetOf demoCodec (NsName namespace ''demo-kubeconfig'') = demoTarget"
  by (simp add: demoCodec_def spec_targetOf_def init_default demoFormat_def demo_names
      demoTarget_def)

lemma demo_fetch:
  assumes "store demoKey = Some (demoCapiSecret ''cluster.x-k8s.io/secret'')"
  shows "Reconcile_fetch demoHelpers demoKey (demoWorld store) =
           (Inr (demoArgoCluster, demoDesired, store demoTarget), fetched store)"
  using assms
  by (simp add: Reconcile_fetch_def demoHelpers_def spec_Helpers_def spec_ValidateCapiNaming_def
      spec_ValidateCapiSecret_def spec_Unmarshal_def spec_NewArgoCluster_def
      spec_ConvertToSecret_def demoCodec_def demoKey_def demoTarget_def demoWorld_def
      spec_targetOf_def init_default demoFormat_def demoCapiSecret_def fetched_def
      demoArgoCluster_def demoDesired_def demo_names issue_def logInfo_def Get_def GetClusterFromMetadata_def setClass_def demoCluster_def keyOf_def
      mapIndex_def Let_def split: option.splits)

subsection \<open>The ownership guard\<close>

lemma mapIndex_eq_nonempty:
  "v \<noteq> [] \<Longrightarrow> mapIndex m k = v \<longleftrightarrow> (\<exists>f. m = Some f \<and> f k = Some v)"
  by (auto simp: mapIndex_def split: option.splits)

lemma switch_not_owned:
  "ValidateObjectOwner existingSecret \<noteq> None \<Longrightarrow>
   Reconcile_switch argoCluster argoSecret (Some existingSecret) w =
     (Return emptyResult None,
      logInfo ''Not managed by Controller, skipping..''
        (logInfo ''Checking if ArgoSecret is managed by the Controller'' w))"
  by (auto simp add: Reconcile_switch_def Let_def)

text \<open>
  C10. \<open>ValidateObjectOwner\<close> accepts a Secret exactly when its labels map is there and
  holds the string \<open>true\<close> under \<open>capi-to-argocd/owned\<close>. In every other case (no labels
  map, no such key, a value such as \<open>True\<close> or \<open>1\<close>) it returns the error
  \<open>not owned by CACO\<close>, and the \<open>switch\<close> then returns without an error, having written
  two log lines and nothing else: no call is sent and the store is as before.
\<close>

theorem ValidateObjectOwner_exact:
  "(ValidateObjectOwner s = None \<longleftrightarrow>
      (\<exists>labels. Labels (ObjectMeta s) = Some labels
         \<and> labels ''capi-to-argocd/owned'' = Some ''true''))
   \<and> (ValidateObjectOwner s \<noteq> None \<longrightarrow>
        ValidateObjectOwner s = Some (New ''not owned by CACO'')
        \<and> fst (Reconcile_switch argoCluster argoSecret (Some s) w) = Return emptyResult None
        \<and> secrets (snd (Reconcile_switch argoCluster argoSecret (Some s) w)) = secrets w
        \<and> calls (snd (Reconcile_switch argoCluster argoSecret (Some s) w)) = calls w)"
proof -
  have guard: "ValidateObjectOwner s = None \<longleftrightarrow>
      (\<exists>labels. Labels (ObjectMeta s) = Some labels
         \<and> labels ''capi-to-argocd/owned'' = Some ''true'')"
    by (simp add: ValidateObjectOwner_def mapIndex_eq_nonempty)
  have err: "ValidateObjectOwner s \<noteq> None
      \<Longrightarrow> ValidateObjectOwner s = Some (New ''not owned by CACO'')"
    by (simp add: ValidateObjectOwner_def split: if_splits)
  show ?thesis
    using guard err by (simp add: switch_not_owned)
qed

theorem ValidateObjectOwner_exact_witness:
  "ValidateObjectOwner (demoArgoSecret None None) = Some (New ''not owned by CACO'')
   \<and> ValidateObjectOwner (demoArgoSecret (Some Map.empty) None)
       = Some (New ''not owned by CACO'')
   \<and> ValidateObjectOwner (demoArgoSecret (Some [''capi-to-argocd/owned'' \<mapsto> ''True'']) None)
       = Some (New ''not owned by CACO'')
   \<and> ValidateObjectOwner (demoArgoSecret (Some [''capi-to-argocd/owned'' \<mapsto> ''1'']) None)
       = Some (New ''not owned by CACO'')
   \<and> ValidateObjectOwner (demoArgoSecret (Some [''capi-to-argocd/owned'' \<mapsto> ''true'']) None)
       = None
   \<and> fst (Reconcile_switch demoArgoCluster demoDesired (Some foreignSecret)
            (fetched foreignStore)) = Return emptyResult None
   \<and> secrets (snd (Reconcile_switch demoArgoCluster demoDesired (Some foreignSecret)
            (fetched foreignStore))) = foreignStore"
  using ValidateObjectOwner_exact [of "demoArgoSecret None None"]
    ValidateObjectOwner_exact [of "demoArgoSecret (Some Map.empty) None"]
    ValidateObjectOwner_exact [of "demoArgoSecret (Some [''capi-to-argocd/owned'' \<mapsto> ''True'']) None"]
    ValidateObjectOwner_exact [of "demoArgoSecret (Some [''capi-to-argocd/owned'' \<mapsto> ''1'']) None"]
    ValidateObjectOwner_exact [of "demoArgoSecret (Some [''capi-to-argocd/owned'' \<mapsto> ''true'']) None"]
    ValidateObjectOwner_exact [of foreignSecret demoArgoCluster demoDesired "fetched foreignStore"]
  by (simp add: demoArgoSecret_def foreignSecret_def)

subsection \<open>Records of other owners\<close>

text \<open>
  C1. Take a pass that gets as far as the \<open>switch\<close> with an existing ArgoSecret, and let
  \<open>ValidateObjectOwner\<close> reject that Secret. Then \<open>Reconcile\<close> returns the empty result
  and no error, the calls it sent are the three reads of the first part (no create, no
  update), and the store is the one it started from; in particular the existing record
  is still there, field for field. Nothing is assumed about the ArgoCluster and the
  ArgoSecret that the pass computed.
\<close>

theorem not_owned_is_left_untouched:
  assumes "Reconcile_fetch pkg req w = (Inr (argoCluster, argoSecret, Some existingSecret), w1)"
    and "ValidateObjectOwner existingSecret \<noteq> None"
  shows "fst (Reconcile pkg req w) = Return emptyResult None
       \<and> secrets (snd (Reconcile pkg req w)) = secrets w
       \<and> secrets (snd (Reconcile pkg req w)) (NamespacedName argoCluster) = Some existingSecret
       \<and> calls (snd (Reconcile pkg req w)) = calls w1
       \<and> filter isWrite (calls (snd (Reconcile pkg req w))) = filter isWrite (calls w)"
proof -
  have run: "Reconcile pkg req w =
      (Return emptyResult None,
       logInfo ''Not managed by Controller, skipping..''
         (logInfo ''Checking if ArgoSecret is managed by the Controller'' w1))"
    using assms by (simp add: Reconcile_def switch_not_owned)
  have store: "secrets w1 = secrets w"
    using assms(1) by (rule fetch_cases)
  have found: "secrets w (NamespacedName argoCluster) = Some existingSecret"
    using assms(1) by (rule fetch_cases) simp
  have reads: "filter isWrite (calls w1) = filter isWrite (calls w)"
    using assms(1) by (rule fetch_cases) (simp add: isWrite_def)
  show ?thesis
    using run reads store found by simp
qed

theorem not_owned_is_left_untouched_witness:
  "Reconcile_fetch demoHelpers demoKey (demoWorld foreignStore) =
     (Inr (demoArgoCluster, demoDesired, Some foreignSecret), fetched foreignStore)
   \<and> ValidateObjectOwner foreignSecret \<noteq> None
   \<and> fst (Reconcile demoHelpers demoKey (demoWorld foreignStore)) = Return emptyResult None
   \<and> secrets (snd (Reconcile demoHelpers demoKey (demoWorld foreignStore))) demoTarget
       = Some foreignSecret
   \<and> filter isWrite (calls (snd (Reconcile demoHelpers demoKey (demoWorld foreignStore)))) = []"
proof -
  have fetch: "Reconcile_fetch demoHelpers demoKey (demoWorld foreignStore) =
     (Inr (demoArgoCluster, demoDesired, Some foreignSecret), fetched foreignStore)"
    using demo_fetch [of foreignStore] by (simp add: foreignStore_def demo_keys)
  have foreign: "ValidateObjectOwner foreignSecret \<noteq> None"
    by (simp add: ValidateObjectOwner_def foreignSecret_def demoArgoSecret_def mapIndex_def)
  show ?thesis
    using fetch foreign not_owned_is_left_untouched [OF fetch foreign]
    by (simp add: foreignStore_def)
qed

subsection \<open>A credential record that is gone\<close>

text \<open>
  C8. When the name passes \<open>ValidateCapiNaming\<close> and the fetch of the CapiSecret fails
  with a not-found error, \<open>Reconcile\<close> returns the empty result (no requeue) and a nil
  error. The fetch is the only call it sent, nothing is logged and the store is as
  before.
\<close>

theorem missing_CapiSecret_is_success:
  assumes "ValidateCapiNaming pkg req" and "fst (Get req w) = Inl err" and "IsNotFound err"
  shows "Reconcile pkg req w = (Return emptyResult None, issue (CallGet req) w)
       \<and> \<not> Requeue emptyResult \<and> RequeueAfter emptyResult = 0
       \<and> secrets (snd (Reconcile pkg req w)) = secrets w
       \<and> calls (snd (Reconcile pkg req w)) = calls w @ [CallGet req]
       \<and> logs (snd (Reconcile pkg req w)) = logs w"
proof -
  have "Get req w = (Inl err, issue (CallGet req) w)"
    using assms(2) Get_world [of req w] by (cases "Get req w") simp
  then have "Reconcile pkg req w = (Return emptyResult None, issue (CallGet req) w)"
    using assms(1,3) by (simp add: Reconcile_def Reconcile_fetch_def IgnoreNotFound_def)
  then show ?thesis
    by (simp add: emptyResult_def)
qed

theorem missing_CapiSecret_is_success_witness:
  "ValidateCapiNaming demoHelpers demoKey
   \<and> fst (Get demoKey (demoWorld Map.empty)) = Inl (StatusError StatusReasonNotFound)
   \<and> IsNotFound (StatusError StatusReasonNotFound)
   \<and> Reconcile demoHelpers demoKey (demoWorld Map.empty)
       = (Return emptyResult None, issue (CallGet demoKey) (demoWorld Map.empty))"
proof -
  note name = demo_name_ok
  have gone: "fst (Get demoKey (demoWorld Map.empty)) = Inl (StatusError StatusReasonNotFound)"
    by (simp add: Get_def demoWorld_def)
  have nf: "IsNotFound (StatusError StatusReasonNotFound)"
    by simp
  show ?thesis
    using name gone nf missing_CapiSecret_is_success [OF name gone nf] by simp
qed

subsection \<open>Names that are not kubeconfig names\<close>

lemma HasSuffix_iff: "HasSuffix s suffix \<longleftrightarrow> (\<exists>p. s = p @ suffix)"
proof
  assume "HasSuffix s suffix"
  then have "s = take (length s - length suffix) s @ suffix"
    by (metis HasSuffix_def append_take_drop_id)
  then show "\<exists>p. s = p @ suffix" ..
next
  assume "\<exists>p. s = p @ suffix"
  then show "HasSuffix s suffix"
    by (auto simp add: HasSuffix_def)
qed

lemma TrimSuffix_append: "TrimSuffix (p @ suffix) suffix = p"
  by (simp add: TrimSuffix_def HasSuffix_def)

lemma spec_ValidateCapiNaming_iff:
  "spec_ValidateCapiNaming (NsName namespace name) \<longleftrightarrow>
     (\<exists>clusterName. clusterName \<noteq> [] \<and> name = clusterName @ ''-kubeconfig'')"
  by (auto simp add: spec_ValidateCapiNaming_def HasSuffix_iff TrimSuffix_append)

lemma rejected_name:
  "\<not> ValidateCapiNaming pkg req \<Longrightarrow> Reconcile pkg req w = (Return emptyResult None, w)"
  by (simp add: Reconcile_def Reconcile_fetch_def)

text \<open>
  C6. With the Naming Validator of the design document in place of
  \<open>ValidateCapiNaming\<close>, and whatever the other helpers are: when the name of the event
  is not a non-empty cluster name followed by \<open>-kubeconfig\<close>, \<open>Reconcile\<close> returns the
  empty result and a nil error and the world is exactly the one it started in. No call
  was sent to the store (no fetch, no create, no update) and nothing was logged.
\<close>

theorem unmatched_name_is_skipped:
  assumes "\<not> (\<exists>clusterName. clusterName \<noteq> [] \<and> name = clusterName @ ''-kubeconfig'')"
  shows "Reconcile (pkg\<lparr>ValidateCapiNaming := spec_ValidateCapiNaming\<rparr>) (NsName namespace name) w
           = (Return emptyResult None, w)"
  using assms by (simp add: rejected_name spec_ValidateCapiNaming_iff)

theorem unmatched_name_is_skipped_witness:
  "\<not> (\<exists>clusterName. clusterName \<noteq> [] \<and> ''foo-bar'' = clusterName @ ''-kubeconfig'')
   \<and> Reconcile demoHelpers (NsName ''default'' ''foo-bar'') (demoWorld foreignStore)
       = (Return emptyResult None, demoWorld foreignStore)
   \<and> \<not> (\<exists>clusterName. clusterName \<noteq> [] \<and> ''-kubeconfig'' = clusterName @ ''-kubeconfig'')
   \<and> Reconcile demoHelpers (NsName ''default'' ''-kubeconfig'') (demoWorld foreignStore)
       = (Return emptyResult None, demoWorld foreignStore)"
proof -
  have a: "\<not> (\<exists>clusterName. clusterName \<noteq> [] \<and> ''foo-bar'' = clusterName @ ''-kubeconfig'')"
    using spec_ValidateCapiNaming_iff [of "''default''" "''foo-bar''"]
    by (simp add: spec_ValidateCapiNaming_def HasSuffix_def)
  have b: "\<not> (\<exists>clusterName. clusterName \<noteq> [] \<and> ''-kubeconfig'' = clusterName @ ''-kubeconfig'')"
    by simp
  have h: "demoHelpers\<lparr>ValidateCapiNaming := spec_ValidateCapiNaming\<rparr> = demoHelpers"
    by (simp add: demoHelpers_def spec_Helpers_def)
  show ?thesis
    using a b
      unmatched_name_is_skipped [OF a, of demoHelpers "''default''" "demoWorld foreignStore"]
      unmatched_name_is_skipped [OF b, of demoHelpers "''default''" "demoWorld foreignStore"]
    by (simp only: h simp_thms)
qed

subsection \<open>A credential record of another type\<close>

lemma invalid_CapiSecret:
  assumes "ValidateCapiNaming pkg req" and "fst (Get req w) = Inr capiSecret"
    and "ValidateCapiSecret pkg capiSecret = Some err"
  shows "Reconcile pkg req w =
           (Return emptyResult (Some err),
            logInfo ''Ignoring secret as it's missing proper CAPI type''
              (logInfo ''Fetched CapiSecret'' (issue (CallGet req) w)))"
proof -
  have "Get req w = (Inr capiSecret, issue (CallGet req) w)"
    using assms(2) Get_world [of req w] by (cases "Get req w") simp
  then show ?thesis
    using assms(1,3) by (simp add: Reconcile_def Reconcile_fetch_def)
qed

text \<open>
  C2 says that a credential record whose type is not the expected one is skipped: no
  error, no retry, no write. The code does not write, but it does return an error. Here
  the credential record \<open>default/demo-kubeconfig\<close> carries the type \<open>Opaque\<close>. The pass
  fetches it, logs that it ignores the Secret and sends no other call, so the store is
  untouched; what it returns, though, is the validator's error and not nil (line 65
  returns \<open>err\<close>), and the caller of \<open>Reconcile\<close> runs a pass again when it returned an
  error.
\<close>

theorem wrong_type_returns_the_error:
  "fst (Reconcile demoHelpers demoKey opaqueWorld)
     = Return emptyResult (Some (New ''InvalidRecordKind''))
   \<and> calls (snd (Reconcile demoHelpers demoKey opaqueWorld)) = [CallGet demoKey]
   \<and> secrets (snd (Reconcile demoHelpers demoKey opaqueWorld)) = secrets opaqueWorld
   \<and> logs (snd (Reconcile demoHelpers demoKey opaqueWorld))
       = [LogInfo ''Fetched CapiSecret'',
          LogInfo ''Ignoring secret as it's missing proper CAPI type'']"
proof -
  have got: "fst (Get demoKey opaqueWorld) = Inr (demoCapiSecret ''Opaque'')"
    by (simp add: Get_def opaqueWorld_def)
  have bad: "ValidateCapiSecret demoHelpers (demoCapiSecret ''Opaque'')
               = Some (New ''InvalidRecordKind'')"
    by (simp add: demoHelpers_def spec_Helpers_def spec_ValidateCapiSecret_def
        demoCapiSecret_def)
  show ?thesis
    unfolding invalid_CapiSecret [OF demo_name_ok got bad] by (simp add: opaqueWorld_def)
qed

subsection \<open>An owning cluster that cannot be resolved\<close>






subsection \<open>The calls of a pass\<close>

lemma Update_calls [simp]: "calls (snd (Update obj w)) = calls w @ [CallUpdate obj]"
  by (simp add: Update_def split: option.splits)

lemma Create_calls [simp]: "calls (snd (Create obj w)) = calls w @ [CallCreate obj]"
  by (simp add: Create_def split: option.splits)

lemma syncFields_in_sync:
  "\<not> outOfSync argoCluster argoSecret existingSecret \<Longrightarrow>
   syncFields argoCluster argoSecret existingSecret = Some (existingSecret, False)"
  by (simp add: syncFields_def syncField_def bytesEqual_def outOfSync_def)

lemma syncFields_nil:
  "outOfSync argoCluster argoSecret existingSecret \<Longrightarrow> Data existingSecret = None \<Longrightarrow>
   syncFields argoCluster argoSecret existingSecret = None"
  by (auto simp add: syncFields_def syncField_def bytesEqual_def outOfSync_def mapAssign_def)

lemma syncFields_out_of_sync:
  "outOfSync argoCluster argoSecret existingSecret \<Longrightarrow> Data existingSecret = Some d \<Longrightarrow>
   syncFields argoCluster argoSecret existingSecret
     = Some (existingSecret\<lparr>Data := Some (synced argoCluster argoSecret d)\<rparr>, True)"
  by (auto simp add: syncFields_def syncField_def bytesEqual_def outOfSync_def mapAssign_def
      synced_def mapIndex_def fun_eq_iff split: option.splits)

lemma switch_create_calls:
  "calls (snd (Reconcile_switch argoCluster argoSecret None w)) = calls w @ [CallCreate argoSecret]"
  by (simp add: Reconcile_switch_def split: prod.splits option.splits)
    (metis Create_calls snd_conv)

lemma switch_quiet:
  assumes "ValidateObjectOwner existingSecret \<noteq> None
           \<or> \<not> outOfSync argoCluster argoSecret existingSecret
           \<or> Data existingSecret = None"
  shows "calls (snd (Reconcile_switch argoCluster argoSecret (Some existingSecret) w)) = calls w"
proof (cases "ValidateObjectOwner existingSecret")
  case (Some err)
  then show ?thesis
    by (simp add: switch_not_owned)
next
  case None
  show ?thesis
  proof (cases "outOfSync argoCluster argoSecret existingSecret")
    case False
    then show ?thesis
      using None by (simp add: Reconcile_switch_def Let_def syncFields_in_sync)
  next
    case True
    then have "syncFields argoCluster argoSecret existingSecret = None"
      using assms None by (simp add: syncFields_nil)
    then show ?thesis
      using None by (simp add: Reconcile_switch_def Let_def)
  qed
qed

lemma switch_update_calls:
  assumes "ValidateObjectOwner existingSecret = None"
    and "outOfSync argoCluster argoSecret existingSecret"
    and "Data existingSecret = Some d"
  shows "calls (snd (Reconcile_switch argoCluster argoSecret (Some existingSecret) w))
           = calls w @ [CallUpdate (existingSecret\<lparr>Data := Some (synced argoCluster argoSecret d)\<rparr>)]"
proof -
  have "syncFields argoCluster argoSecret existingSecret
          = Some (existingSecret\<lparr>Data := Some (synced argoCluster argoSecret d)\<rparr>, True)"
    using assms(2,3) by (rule syncFields_out_of_sync)
  then show ?thesis
    using assms(1)
    by (simp add: Reconcile_switch_def Let_def split: prod.splits option.splits)
      (metis Update_calls snd_conv logInfo_simps(4))
qed

lemma fetch_found:
  "Reconcile_fetch pkg req w = (Inr (argoCluster, argoSecret, Some existingSecret), w1) \<Longrightarrow>
   secrets w (NamespacedName argoCluster) = Some existingSecret"
  by (erule fetch_cases) simp

lemma synced_frame:
  "k \<noteq> ''name'' \<Longrightarrow> k \<noteq> ''server'' \<Longrightarrow> k \<noteq> ''config'' \<Longrightarrow>
   synced argoCluster argoSecret d k = d k"
  by (simp add: synced_def)

lemma synced_only_server:
  assumes "mapIndex (Some d) ''name'' = ClusterName argoCluster"
    and "mapIndex (Some d) ''config'' = mapIndex (Data argoSecret) ''config''"
    and "mapIndex (Some d) ''server'' \<noteq> ClusterServer argoCluster"
  shows "synced argoCluster argoSecret d = d(''server'' \<mapsto> ClusterServer argoCluster)"
  using assms by (simp add: synced_def fun_eq_iff)

lemma synced_keys:
  "synced argoCluster argoSecret d ''name'' = d ''name''
     \<or> synced argoCluster argoSecret d ''name'' = Some (ClusterName argoCluster)"
  "synced argoCluster argoSecret d ''server'' = d ''server''
     \<or> synced argoCluster argoSecret d ''server'' = Some (ClusterServer argoCluster)"
  "synced argoCluster argoSecret d ''config'' = d ''config''
     \<or> synced argoCluster argoSecret d ''config'' = Some (mapIndex (Data argoSecret) ''config'')"
  by (simp_all add: synced_def)

lemma pass_calls_stopped:
  assumes "Reconcile_fetch pkg req w = (Inl res, w1)"
  shows "filter isWrite (drop (length (calls w)) (calls (snd (Reconcile pkg req w)))) = []"
proof -
  obtain cs where "calls (snd (Reconcile_fetch pkg req w)) = calls w @ cs" "filter isWrite cs = []"
    using fetch_reads_only by blast
  then show ?thesis
    using assms by (simp add: Reconcile_def)
qed

lemma pass_fetch_calls:
  assumes "Reconcile_fetch pkg req w = (Inr (argoCluster, argoSecret, existing), w1)"
  obtains cs where "calls w1 = calls w @ cs" "filter isWrite cs = []"
    "Reconcile pkg req w = Reconcile_switch argoCluster argoSecret existing w1"
proof -
  have "\<exists>cs. calls w1 = calls w @ cs \<and> filter isWrite cs = []"
    using fetch_reads_only [of pkg req w] assms by simp
  moreover have "Reconcile pkg req w = Reconcile_switch argoCluster argoSecret existing w1"
    using assms by (simp add: Reconcile_def)
  ultimately show ?thesis
    using that by blast
qed

lemma pass_writes_create:
  assumes "Reconcile_fetch pkg req w = (Inr (argoCluster, argoSecret, None), w1)"
  shows "filter isWrite (drop (length (calls w)) (calls (snd (Reconcile pkg req w))))
           = [CallCreate argoSecret]"
  using assms by (rule pass_fetch_calls) (simp add: switch_create_calls)

lemma pass_writes_quiet:
  assumes "Reconcile_fetch pkg req w = (Inr (argoCluster, argoSecret, Some existingSecret), w1)"
    and "ValidateObjectOwner existingSecret \<noteq> None
           \<or> \<not> outOfSync argoCluster argoSecret existingSecret
           \<or> Data existingSecret = None"
  shows "filter isWrite (drop (length (calls w)) (calls (snd (Reconcile pkg req w)))) = []"
  using assms(1) by (rule pass_fetch_calls) (simp add: switch_quiet [OF assms(2)])

lemma pass_writes_update:
  assumes "Reconcile_fetch pkg req w = (Inr (argoCluster, argoSecret, Some existingSecret), w1)"
    and "ValidateObjectOwner existingSecret = None"
    and "outOfSync argoCluster argoSecret existingSecret"
    and "Data existingSecret = Some d"
  shows "filter isWrite (drop (length (calls w)) (calls (snd (Reconcile pkg req w))))
           = [CallUpdate (existingSecret\<lparr>Data := Some (synced argoCluster argoSecret d)\<rparr>)]"
  using assms(1) by (rule pass_fetch_calls) (simp add: switch_update_calls [OF assms(2,3,4)])

subsection \<open>What an update carries\<close>

text \<open>
  C9. Every update that a pass sends carries the record that the pass fetched under the
  target's name, with nothing changed but its \<open>Data\<close> map: metadata (labels, annotations
  and the rest) and type are those of the fetched record. In the \<open>Data\<close> map every key
  other than \<open>name\<close>, \<open>server\<close> and \<open>config\<close> holds what it held before, and each of these
  three holds either what it held before or the value the pass computed for it.
\<close>

theorem update_carries_the_existing_record:
  assumes "CallUpdate u \<in> set (drop (length (calls w)) (calls (snd (Reconcile pkg req w))))"
  shows "\<exists>argoCluster argoSecret existingSecret w1 d d'.
           Reconcile_fetch pkg req w = (Inr (argoCluster, argoSecret, Some existingSecret), w1)
         \<and> secrets w (NamespacedName argoCluster) = Some existingSecret
         \<and> Data existingSecret = Some d
         \<and> u = existingSecret\<lparr>Data := Some d'\<rparr>
         \<and> ObjectMeta u = ObjectMeta existingSecret
         \<and> Type u = Type existingSecret
         \<and> (\<forall>k. k \<notin> {''name'', ''server'', ''config''} \<longrightarrow> d' k = d k)
         \<and> (d' ''name'' = d ''name'' \<or> d' ''name'' = Some (ClusterName argoCluster))
         \<and> (d' ''server'' = d ''server'' \<or> d' ''server'' = Some (ClusterServer argoCluster))
         \<and> (d' ''config'' = d ''config''
              \<or> d' ''config'' = Some (mapIndex (Data argoSecret) ''config''))"
proof -
  let ?written = "filter isWrite (drop (length (calls w)) (calls (snd (Reconcile pkg req w))))"
  have written: "CallUpdate u \<in> set ?written"
    using assms by simp
  obtain x w1 where fetch: "Reconcile_fetch pkg req w = (x, w1)"
    by (cases "Reconcile_fetch pkg req w")
  show ?thesis
  proof (cases x)
    case (Inl res)
    then show ?thesis
      using written fetch pass_calls_stopped [of pkg req w res w1] by simp
  next
    case (Inr triple)
    obtain argoCluster argoSecret existing where
      triple: "triple = (argoCluster, argoSecret, existing)"
      by (cases triple)
    note fetch' = fetch [unfolded Inr triple]
    show ?thesis
    proof (cases existing)
      case None
      then show ?thesis
        using written pass_writes_create [of pkg req w argoCluster argoSecret w1] fetch' by simp
    next
      case (Some existingSecret)
      note fetch'' = fetch' [unfolded Some]
      have loud: "\<not> (ValidateObjectOwner existingSecret \<noteq> None
           \<or> \<not> outOfSync argoCluster argoSecret existingSecret
           \<or> Data existingSecret = None)"
      proof
        assume "ValidateObjectOwner existingSecret \<noteq> None
           \<or> \<not> outOfSync argoCluster argoSecret existingSecret
           \<or> Data existingSecret = None"
        then have "?written = []"
          by (rule pass_writes_quiet [OF fetch''])
        then show False
          using written by simp
      qed
      then obtain d where d: "Data existingSecret = Some d"
        by blast
      have "?written = [CallUpdate (existingSecret\<lparr>Data := Some (synced argoCluster argoSecret d)\<rparr>)]"
        using loud by (intro pass_writes_update [OF fetch'' _ _ d]) simp_all
      then have u: "u = existingSecret\<lparr>Data := Some (synced argoCluster argoSecret d)\<rparr>"
        using written by simp
      have found: "secrets w (NamespacedName argoCluster) = Some existingSecret"
        using fetch'' by (rule fetch_found)
      have frame: "\<forall>k. k \<notin> {''name'', ''server'', ''config''}
                     \<longrightarrow> synced argoCluster argoSecret d k = d k"
        by (simp add: synced_frame)
      show ?thesis
        using fetch'' found d u frame synced_keys [of argoCluster argoSecret d]
        by (intro exI [of _ argoCluster] exI [of _ argoSecret] exI [of _ existingSecret]
            exI [of _ w1] exI [of _ d] exI [of _ "synced argoCluster argoSecret d"] conjI)
          simp_all
    qed
  qed
qed

lemma stale_fetch:
  "Reconcile_fetch demoHelpers demoKey (demoWorld staleStore) =
     (Inr (demoArgoCluster, demoDesired, Some staleSecret), fetched staleStore)"
  using demo_fetch [of staleStore] by (simp add: staleStore_def demo_keys)

lemma stale_owned: "ValidateObjectOwner staleSecret = None"
  by (simp add: ValidateObjectOwner_def staleSecret_def demoArgoSecret_def mapIndex_def)

lemma stale_data: "Data staleSecret = Some staleData"
  by (simp add: staleSecret_def demoArgoSecret_def)

lemma stale_out_of_sync: "outOfSync demoArgoCluster demoDesired staleSecret"
  by (simp add: outOfSync_def stale_data staleData_def mapIndex_def)

lemma stale_synced:
  "synced demoArgoCluster demoDesired staleData
     = staleData(''server'' \<mapsto> ''https://1.2.3.4:6443'')"
  by (simp add: synced_def staleData_def demoDesired_def mapIndex_def fun_eq_iff)

theorem update_carries_the_existing_record_witness:
  "CallUpdate (staleSecret\<lparr>Data := Some (staleData(''server'' \<mapsto> ''https://1.2.3.4:6443''))\<rparr>)
     \<in> set (drop (length (calls (demoWorld staleStore)))
               (calls (snd (Reconcile demoHelpers demoKey (demoWorld staleStore)))))
   \<and> (\<exists>argoCluster argoSecret existingSecret w1 d d'.
           Reconcile_fetch demoHelpers demoKey (demoWorld staleStore)
             = (Inr (argoCluster, argoSecret, Some existingSecret), w1)
         \<and> secrets (demoWorld staleStore) (NamespacedName argoCluster) = Some existingSecret
         \<and> Data existingSecret = Some d
         \<and> staleSecret\<lparr>Data := Some (staleData(''server'' \<mapsto> ''https://1.2.3.4:6443''))\<rparr>
             = existingSecret\<lparr>Data := Some d'\<rparr>
         \<and> ObjectMeta (staleSecret\<lparr>Data := Some (staleData(''server'' \<mapsto> ''https://1.2.3.4:6443''))\<rparr>)
             = ObjectMeta existingSecret
         \<and> Type (staleSecret\<lparr>Data := Some (staleData(''server'' \<mapsto> ''https://1.2.3.4:6443''))\<rparr>)
             = Type existingSecret
         \<and> (\<forall>k. k \<notin> {''name'', ''server'', ''config''} \<longrightarrow> d' k = d k)
         \<and> (d' ''name'' = d ''name'' \<or> d' ''name'' = Some (ClusterName argoCluster))
         \<and> (d' ''server'' = d ''server'' \<or> d' ''server'' = Some (ClusterServer argoCluster))
         \<and> (d' ''config'' = d ''config''
              \<or> d' ''config'' = Some (mapIndex (Data argoSecret) ''config'')))"
proof -
  let ?u = "staleSecret\<lparr>Data := Some (staleData(''server'' \<mapsto> ''https://1.2.3.4:6443''))\<rparr>"
  let ?issued = "drop (length (calls (demoWorld staleStore)))
               (calls (snd (Reconcile demoHelpers demoKey (demoWorld staleStore))))"
  have "filter isWrite ?issued = [CallUpdate ?u]"
    using pass_writes_update [OF stale_fetch stale_owned stale_out_of_sync stale_data]
    by (simp only: stale_synced)
  then have "CallUpdate ?u \<in> set (filter isWrite ?issued)"
    by simp
  then have issued: "CallUpdate ?u \<in> set ?issued"
    by simp
  show ?thesis
    using issued update_carries_the_existing_record [OF issued] by blast
qed

subsection \<open>An owned record without data\<close>

lemma switch_nil_data:
  assumes "ValidateObjectOwner existingSecret = None"
    and "outOfSync argoCluster argoSecret existingSecret"
    and "Data existingSecret = None"
  shows "Reconcile_switch argoCluster argoSecret (Some existingSecret) w =
           (Panic ''assignment to entry in nil map'',
            logInfo ''Checking if ArgoSecret is out-of-sync with''
              (logInfo ''Checking if ArgoSecret is managed by the Controller'' w))"
  using assms(1) syncFields_nil [OF assms(2,3)]
  by (simp add: Reconcile_switch_def Let_def)

lemma bare_fetch:
  "Reconcile_fetch demoHelpers demoKey (demoWorld bareStore) =
     (Inr (demoArgoCluster, demoDesired, Some bareSecret), fetched bareStore)"
  using demo_fetch [of bareStore] by (simp add: bareStore_def demo_keys)

lemma bare_owned: "ValidateObjectOwner bareSecret = None"
  by (simp add: ValidateObjectOwner_def bareSecret_def demoArgoSecret_def mapIndex_def)

lemma bare_data: "Data bareSecret = None"
  by (simp add: bareSecret_def demoArgoSecret_def)

lemma bare_out_of_sync: "outOfSync demoArgoCluster demoDesired bareSecret"
  by (simp add: outOfSync_def bare_data mapIndex_def)

text \<open>
  C4 says that an owned existing record is updated exactly when one of \<open>name\<close>, \<open>server\<close>
  and \<open>config\<close> differs, and only in the fields that differ. For an existing record with
  a \<open>Data\<close> map that is what the code does: it sends the update \<open>pass_writes_update\<close>
  describes, whose frame is \<open>synced_frame\<close> (when only the server differs, only the server
  changes: \<open>synced_only_server\<close>), and it sends none when nothing differs
  (\<open>pass_writes_quiet\<close>). It fails for an owned record without any data, whose \<open>Data\<close> map
  is nil. Here the target record \<open>argocd/cluster-demo\<close> is such a record. Its name, read
  as empty, differs from the cluster name \<open>demo\<close>, so line 142 assigns into the nil map
  and the pass panics: no update is sent and the record stays as it was.
\<close>

theorem owned_record_without_data_panics:
  "ValidateObjectOwner bareSecret = None
   \<and> mapIndex (Data bareSecret) ''name'' \<noteq> ClusterName demoArgoCluster
   \<and> fst (Reconcile demoHelpers demoKey (demoWorld bareStore))
       = Panic ''assignment to entry in nil map''
   \<and> filter isWrite (calls (snd (Reconcile demoHelpers demoKey (demoWorld bareStore)))) = []
   \<and> secrets (snd (Reconcile demoHelpers demoKey (demoWorld bareStore))) demoTarget
       = Some bareSecret"
proof -
  have "Reconcile demoHelpers demoKey (demoWorld bareStore)
          = (Panic ''assignment to entry in nil map'',
             logInfo ''Checking if ArgoSecret is out-of-sync with''
               (logInfo ''Checking if ArgoSecret is managed by the Controller''
                  (fetched bareStore)))"
    by (simp add: Reconcile_def bare_fetch switch_nil_data [OF bare_owned bare_out_of_sync bare_data])
  then show ?thesis
    by (simp add: bare_owned bare_data mapIndex_def bareStore_def)
qed

subsection \<open>Two passes in a row\<close>




lemma spec_transform:
  obtains argoSecret0 argoSecret where
    "spec_ConvertToSecret (spec_NewArgoCluster codec capiCluster capiSecret) = Inr argoSecret0"
    "setClass cluster argoSecret0 = Some argoSecret"
    "keyOf argoSecret = targetOf codec (keyOf capiSecret)"
    "ValidateObjectOwner argoSecret = None"
    "\<not> outOfSync (spec_NewArgoCluster codec capiCluster capiSecret) argoSecret argoSecret"
    "Data argoSecret = Data argoSecret0"
proof -
  let ?c = "spec_NewArgoCluster codec capiCluster capiSecret"
  obtain namespace name where t: "targetOf codec (keyOf capiSecret) = NsName namespace name"
    by (cases "targetOf codec (keyOf capiSecret)")
  obtain argoSecret0 where conv: "spec_ConvertToSecret ?c = Inr argoSecret0"
    by (simp add: spec_ConvertToSecret_def spec_NewArgoCluster_def t)
  have s0: "argoSecret0 =
        \<lparr>ObjectMeta =
               \<lparr>Name = name, Namespace = namespace,
                Labels = Some [''capi-to-argocd/owned'' \<mapsto> ''true''],
                Annotations = None, ResourceVersion = []\<rparr>,
             Type = [],
             Data = Some [''name'' \<mapsto> ClusterName ?c,
                          ''server'' \<mapsto> ClusterServer ?c,
                          ''config'' \<mapsto> ClusterConfig ?c]\<rparr>"
    using conv by (simp add: spec_ConvertToSecret_def spec_NewArgoCluster_def t)
  obtain argoSecret where cls: "setClass cluster argoSecret0 = Some argoSecret"
    by (cases "Topology (Spec cluster)") (simp_all add: setClass_def mapAssign_def s0)
  have meta: "Name (ObjectMeta argoSecret) = name" "Namespace (ObjectMeta argoSecret) = namespace"
    "mapIndex (Labels (ObjectMeta argoSecret)) ''capi-to-argocd/owned'' = ''true''"
    "Data argoSecret = Data argoSecret0"
    using cls
    by (cases "Topology (Spec cluster)"; simp add: setClass_def mapAssign_def s0 mapIndex_def; fastforce)+
  have "keyOf argoSecret = targetOf codec (keyOf capiSecret)"
    unfolding t by (simp add: keyOf_def meta)
  moreover have "ValidateObjectOwner argoSecret = None"
    by (simp add: ValidateObjectOwner_def meta)
  moreover have "\<not> outOfSync ?c argoSecret argoSecret"
    by (simp add: outOfSync_def meta(4) s0 mapIndex_def)
  ultimately show ?thesis
    using that conv cls meta(4) by blast
qed










subsection \<open>The name of the target record\<close>

lemma team_key: "keyOf (teamCapiSecret namespace) = NsName namespace ''demo-kubeconfig''"
  by (simp add: keyOf_def teamCapiSecret_def demoCapiSecret_def)

lemma spec_target_without_namespace:
  "\<not> EnableNamespacedNames cfg \<Longrightarrow>
   spec_targetOf cfg format (NsName namespace name) = spec_targetOf cfg format (NsName namespace' name)"
  by (simp add: spec_targetOf_def)

lemma fresh_fetch:
  "Reconcile_fetch demoHelpers demoKey (demoWorld freshStore)
     = (Inr (demoArgoCluster, demoDesired, None), fetched freshStore)"
  using demo_fetch [of freshStore] by (simp add: freshStore_def demo_keys)

text \<open>
  C7, as stated, fails in its last part. Nothing is set in the environment, so namespaces
  are not folded into target names. The credential records \<open>team-a/demo-kubeconfig\<close> and
  \<open>team-b/demo-kubeconfig\<close> are two records, for two clusters, and both are given the
  target \<open>argocd/cluster-demo\<close>. This does not depend on how names are spelled
  (\<open>spec_target_without_namespace\<close>).
\<close>

theorem same_name_same_target_counterexample:
  "keyOf (teamCapiSecret ''team-a'') \<noteq> keyOf (teamCapiSecret ''team-b'')
   \<and> NamespacedName (NewArgoCluster demoHelpers ''https://1.2.3.4:6443'' (teamCapiSecret ''team-a''))
       = demoTarget
   \<and> NamespacedName (NewArgoCluster demoHelpers ''https://5.6.7.8:6443'' (teamCapiSecret ''team-b''))
       = demoTarget"
  by (simp add: team_key demoHelpers_def spec_Helpers_def spec_NewArgoCluster_def demo_targetOf)

text \<open>
  C7, amended. With the naming rule of the design document, a pass for the credential
  record \<open>namespace/name\<close> that gets as far as the lookup of the target record has the
  target \<open>ArgoNamespace/format \<dots> name\<close>, where \<open>format\<close> sees the record's namespace only
  when \<open>EnableNamespacedNames\<close> is set. That is the key under which the pass looks the
  target record up and the key of the Secret it would write. The record's data, the
  resolved cluster and the store do not enter, so the target is the same in every pass.
  When the flag is off, every credential record of that name, in whatever namespace, has
  this same target.
\<close>

theorem target_identifier_follows_the_credential_name:
  assumes "targetOf codec = spec_targetOf cfg format"
    and "Reconcile_fetch (spec_Helpers codec) (NsName namespace name) w
           = (Inr (argoCluster, argoSecret, existing), w1)"
    and "secrets w (NsName namespace name) = Some capiSecret"
    and "keyOf capiSecret = NsName namespace name"
  shows "NamespacedName argoCluster
           = NsName (ArgoNamespace cfg)
               (format (if EnableNamespacedNames cfg then Some namespace else None) name)
       \<and> keyOf argoSecret = NamespacedName argoCluster
       \<and> last (calls w1) = CallGet (NamespacedName argoCluster)
       \<and> (\<not> EnableNamespacedNames cfg \<longrightarrow>
            (\<forall>namespace'. spec_targetOf cfg format (NsName namespace' name)
                = NamespacedName argoCluster))"
proof -
  let ?pkg = "spec_Helpers codec"
  from assms(2) obtain capiSecret' cluster capiCluster argoSecret0 where
    got: "fst (Get (NsName namespace name) w) = Inr capiSecret'"
    and ac: "argoCluster = NewArgoCluster ?pkg capiCluster capiSecret'"
    and conv: "ConvertToSecret ?pkg argoCluster = Inr argoSecret0"
    and cls: "setClass cluster argoSecret0 = Some argoSecret"
    and calls: "calls w1 = calls w @ [CallGet (NsName namespace name),
                  CallGetCluster (ObjectMeta capiSecret'), CallGet (NamespacedName argoCluster)]"
    by (rule fetch_cases)
  have "capiSecret' = capiSecret"
    using got assms(3) by (simp add: Get_Inr)
  then have ac': "argoCluster = spec_NewArgoCluster codec capiCluster capiSecret"
    using ac by (simp add: spec_Helpers_def)
  have target: "NamespacedName argoCluster = spec_targetOf cfg format (NsName namespace name)"
    using assms(1,4) by (simp add: ac' spec_NewArgoCluster_def)
  obtain s0 s where
    "spec_ConvertToSecret (spec_NewArgoCluster codec capiCluster capiSecret) = Inr s0"
    "setClass cluster s0 = Some s" "keyOf s = targetOf codec (keyOf capiSecret)"
    by (rule spec_transform [of codec capiCluster capiSecret cluster])
  then have key: "keyOf argoSecret = NamespacedName argoCluster"
    using conv cls assms(1,4) target by (simp add: ac' spec_Helpers_def)
  show ?thesis
    using target key calls
    by (simp add: spec_targetOf_def)
qed

theorem target_identifier_follows_the_credential_name_witness:
  "targetOf demoCodec = spec_targetOf (init (\<lambda>_. [])) demoFormat
   \<and> Reconcile_fetch (spec_Helpers demoCodec) (NsName ''default'' ''demo-kubeconfig'')
         (demoWorld freshStore)
       = (Inr (demoArgoCluster, demoDesired, None), fetched freshStore)
   \<and> secrets (demoWorld freshStore) (NsName ''default'' ''demo-kubeconfig'')
       = Some (demoCapiSecret ''cluster.x-k8s.io/secret'')
   \<and> keyOf (demoCapiSecret ''cluster.x-k8s.io/secret'') = NsName ''default'' ''demo-kubeconfig''
   \<and> NamespacedName demoArgoCluster = NsName ''argocd'' ''cluster-demo''
   \<and> keyOf demoDesired = NsName ''argocd'' ''cluster-demo''
   \<and> last (calls (fetched freshStore)) = CallGet (NsName ''argocd'' ''cluster-demo'')
   \<and> spec_targetOf (init (\<lambda>_. [])) demoFormat (NsName ''team-b'' ''demo-kubeconfig'')
       = NsName ''argocd'' ''cluster-demo''"
proof -
  have codec: "targetOf demoCodec = spec_targetOf (init (\<lambda>_. [])) demoFormat"
    by (simp add: demoCodec_def)
  have fetch: "Reconcile_fetch (spec_Helpers demoCodec) (NsName ''default'' ''demo-kubeconfig'')
         (demoWorld freshStore)
       = (Inr (demoArgoCluster, demoDesired, None), fetched freshStore)"
    using fresh_fetch by (simp add: demoHelpers_def demoKey_def)
  have stored: "secrets (demoWorld freshStore) (NsName ''default'' ''demo-kubeconfig'')
       = Some (demoCapiSecret ''cluster.x-k8s.io/secret'')"
    by (simp add: freshStore_def demoKey_def)
  have key: "keyOf (demoCapiSecret ''cluster.x-k8s.io/secret'') = NsName ''default'' ''demo-kubeconfig''"
    by (simp add: keyOf_def demoCapiSecret_def)
  show ?thesis
    using codec fetch stored key
      target_identifier_follows_the_credential_name [OF codec fetch stored key]
    by (simp add: init_default demoTarget_def)
qed

subsection \<open>Resolver errors and the class label\<close>






lemma prodWorld_simps [simp]:
  "secrets (prodWorld store) = store" "calls (prodWorld store) = []"
  "failure (prodWorld store) c = None" "clusters (prodWorld store) obj = Inr prodCluster"
  by (simp_all add: prodWorld_def)







end
